theory Spec2Isabelle
  imports Main
begin

section \<open>The store: values, tables and the statements the program sends\<close>

text \<open>
  \<^verbatim>\<open>db_manager_app.py\<close> keeps six tables in one SQLite file and reaches them through
  Python's \<^verbatim>\<open>sqlite3\<close> module. The store is modelled as a map from table names to
  tables; a table has the columns and the primary key that \<^verbatim>\<open>init_db\<close> declares, and
  its rows in the order a table scan returns them (rowid order).

  A request payload is a JSON object: an association list from field names to values,
  in the insertion order of the Python dict. The values of the model are JSON null,
  integers and strings.
\<close>

datatype pyval = PNone | PInt int | PStr string

text \<open>
  The storage classes of SQLite. The carrier \<open>'f\<close> of the floating-point class REAL is
  left open: the program never sends a float, but the store produces one when an integer
  addition leaves the 64-bit range.
\<close>

datatype 'f sqlval = Null | IntV int | RealV 'f | TextV string

datatype affinity = AffInteger | AffText

record column =
  cname :: string
  ctype :: affinity
  notnull :: bool

text \<open>
  \<^verbatim>\<open>id INTEGER PRIMARY KEY\<close> makes \<open>id\<close> an alias of the rowid; the two relationship
  tables have a composite primary key and a hidden rowid.
\<close>

datatype pkey = RowidAlias string | Composite "string list"

type_synonym 'f row = "(string \<times> 'f sqlval) list"

record 'f table =
  columns :: "column list"
  pk :: pkey
  rows :: "'f row list"

type_synonym 'f db = "string \<rightharpoonup> 'f table"

text \<open>
  What SQLite computes outside the integers is not part of the repository and is taken
  as a parameter: the conversion of a text under numeric affinity, the floating-point
  sum that replaces an integer sum out of the 64-bit range, every other sum with an
  operand that is not an integer (as an INTEGER column keeps it), and the rowid chosen
  at random once the largest rowid is in use (\<open>None\<close>: no free rowid was found).
\<close>

record 'f engine =
  numeric_text :: "string \<Rightarrow> 'f sqlval"
  overflow_add :: "int \<Rightarrow> int \<Rightarrow> 'f"
  mixed_add :: "'f sqlval \<Rightarrow> 'f sqlval \<Rightarrow> 'f sqlval"
  random_rowid :: "int list \<Rightarrow> int option"

text \<open>
  Exceptions. \<^verbatim>\<open>except sqlite3.Error\<close> catches the first two; \<^verbatim>\<open>OverflowError\<close> is a
  builtin exception that \<^verbatim>\<open>sqlite3\<close> raises when a Python integer does not fit the
  64-bit INTEGER of the store, and it is not a \<^verbatim>\<open>sqlite3.Error\<close>.
\<close>

datatype exn = OperationalError string | IntegrityError string | OverflowError string

datatype 'a outcome = Returned 'a | Raised exn

definition in_int64 :: "int \<Rightarrow> bool" where
  "in_int64 i \<longleftrightarrow> - 9223372036854775808 \<le> i \<and> i \<le> 9223372036854775807"

fun bindable :: "pyval \<Rightarrow> bool" where
  "bindable (PInt i) = in_int64 i"
| "bindable _ = True"

definition bind_params :: "pyval list \<Rightarrow> exn + unit" where
  "bind_params vs =
     (if list_all bindable vs then Inr ()
      else Inl (OverflowError ''Python int too large to convert to SQLite INTEGER''))"

fun digit_char :: "nat \<Rightarrow> char" where
  "digit_char n = char_of (48 + n)"

fun decimal_nat :: "nat \<Rightarrow> string" where
  "decimal_nat n =
     (if n < 10 then [digit_char n] else decimal_nat (n div 10) @ [digit_char (n mod 10)])"

definition decimal :: "int \<Rightarrow> string" where
  "decimal i = (if i < 0 then CHR ''-'' # decimal_nat (nat (- i)) else decimal_nat (nat i))"

text \<open>A bound parameter as the store keeps it in a column of the given affinity.\<close>

fun store_value :: "'f engine \<Rightarrow> affinity \<Rightarrow> pyval \<Rightarrow> 'f sqlval" where
  "store_value E a PNone = Null"
| "store_value E AffInteger (PInt i) = IntV i"
| "store_value E AffText (PInt i) = TextV (decimal i)"
| "store_value E AffInteger (PStr s) = numeric_text E s"
| "store_value E AffText (PStr s) = TextV s"

text \<open>A bound parameter as an operand of an expression: no affinity applies.\<close>

fun param_value :: "pyval \<Rightarrow> 'f sqlval" where
  "param_value PNone = Null"
| "param_value (PInt i) = IntV i"
| "param_value (PStr s) = TextV s"

text \<open>
  \<^verbatim>\<open>a + b\<close>: NULL if an operand is NULL; the integer sum while it fits 64 bits, and a
  REAL once it does not.
\<close>

fun sql_add :: "'f engine \<Rightarrow> 'f sqlval \<Rightarrow> 'f sqlval \<Rightarrow> 'f sqlval" where
  "sql_add E Null b = Null"
| "sql_add E a Null = Null"
| "sql_add E (IntV x) (IntV y) =
     (if in_int64 (x + y) then IntV (x + y) else RealV (overflow_add E x y))"
| "sql_add E a b = mixed_add E a b"

definition cell :: "'f row \<Rightarrow> string \<Rightarrow> 'f sqlval" where
  "cell r c = (case map_of r c of Some v \<Rightarrow> v | None \<Rightarrow> Null)"

definition column_names :: "'f table \<Rightarrow> string list" where
  "column_names t = map cname (columns t)"

definition affinity_of :: "'f table \<Rightarrow> string \<Rightarrow> affinity" where
  "affinity_of t c =
     (case find (\<lambda>k. cname k = c) (columns t) of Some k \<Rightarrow> ctype k | None \<Rightarrow> AffInteger)"

definition comma_join :: "string list \<Rightarrow> string" where
  "comma_join xs = (case xs of [] \<Rightarrow> [] | x # ys \<Rightarrow> foldl (\<lambda>acc y. acc @ '', '' @ y) x ys)"

subsection \<open>INSERT INTO t (cols) VALUES (?, ...)\<close>

text \<open>
  Preparing the statement fails on an unknown table or column; binding fails on an
  integer out of range; running it fails on a constraint. A failed statement changes
  nothing. Foreign keys are declared but SQLite does not enforce them unless
  \<^verbatim>\<open>PRAGMA foreign_keys\<close> is switched on, which the program never does.
\<close>

definition build_row :: "'f engine \<Rightarrow> column list \<Rightarrow> (string \<times> pyval) list \<Rightarrow> 'f row" where
  "build_row E cols asg =
     map (\<lambda>c. (cname c,
            case map_of asg (cname c) of
              None \<Rightarrow> Null
            | Some v \<Rightarrow> store_value E (ctype c) v)) cols"

definition rowid_of :: "string \<Rightarrow> 'f row \<Rightarrow> int" where
  "rowid_of idc r = (case cell r idc of IntV i \<Rightarrow> i | _ \<Rightarrow> 0)"

definition next_rowid :: "'f engine \<Rightarrow> int list \<Rightarrow> int option" where
  "next_rowid E ids =
     (if ids = [] then Some 1
      else if Max (set ids) < 9223372036854775807 then Some (Max (set ids) + 1)
      else random_rowid E ids)"

definition null_violation :: "column list \<Rightarrow> 'f row \<Rightarrow> string option" where
  "null_violation cols r =
     map_option cname (find (\<lambda>c. notnull c \<and> cell r (cname c) = Null) cols)"

definition same_key :: "string list \<Rightarrow> 'f row \<Rightarrow> 'f row \<Rightarrow> bool" where
  "same_key ks r r' \<longleftrightarrow> list_all (\<lambda>k. cell r k = cell r' k) ks"

definition dotted :: "string \<Rightarrow> string list \<Rightarrow> string" where
  "dotted t ks = comma_join (map (\<lambda>k. t @ ''.'' @ k) ks)"

definition insert_into :: "'f engine \<Rightarrow> string \<Rightarrow> 'f table \<Rightarrow> 'f row \<Rightarrow> exn + 'f table" where
  "insert_into E t tb r0 =
     (case pk tb of
        RowidAlias idc \<Rightarrow>
          (case (case cell r0 idc of
                   Null \<Rightarrow> (case next_rowid E (map (rowid_of idc) (rows tb)) of
                              None \<Rightarrow> Inl (OperationalError ''database or disk is full'')
                            | Some i \<Rightarrow> Inr i)
                 | IntV i \<Rightarrow> Inr i
                 | _ \<Rightarrow> Inl (IntegrityError ''datatype mismatch'')) of
             Inl e \<Rightarrow> Inl e
           | Inr i \<Rightarrow>
               (let r = map (\<lambda>(c, v). (c, if c = idc then IntV i else v)) r0 in
                case null_violation (columns tb) r of
                  Some c \<Rightarrow> Inl (IntegrityError (''NOT NULL constraint failed: '' @ t @ ''.'' @ c))
                | None \<Rightarrow>
                    if list_ex (\<lambda>r'. rowid_of idc r' = i) (rows tb)
                    then Inl (IntegrityError (''UNIQUE constraint failed: '' @ dotted t [idc]))
                    else Inr (tb\<lparr>rows := takeWhile (\<lambda>r'. rowid_of idc r' < i) (rows tb) @ [r]
                                       @ dropWhile (\<lambda>r'. rowid_of idc r' < i) (rows tb)\<rparr>)))
      | Composite ks \<Rightarrow>
          (case null_violation (columns tb) r0 of
             Some c \<Rightarrow> Inl (IntegrityError (''NOT NULL constraint failed: '' @ t @ ''.'' @ c))
           | None \<Rightarrow>
               if list_ex (same_key ks r0) (rows tb)
               then Inl (IntegrityError (''UNIQUE constraint failed: '' @ dotted t ks))
               else Inr (tb\<lparr>rows := rows tb @ [r0]\<rparr>)))"

definition sql_insert ::
  "'f engine \<Rightarrow> 'f db \<Rightarrow> string \<Rightarrow> string list \<Rightarrow> pyval list \<Rightarrow> exn + 'f db" where
  "sql_insert E s t cols vals =
     (case s t of
        None \<Rightarrow> Inl (OperationalError (''no such table: '' @ t))
      | Some tb \<Rightarrow>
          (case find (\<lambda>c. c \<notin> set (column_names tb)) cols of
             Some c \<Rightarrow> Inl (OperationalError (''table '' @ t @ '' has no column named '' @ c))
           | None \<Rightarrow>
               (case bind_params vals of
                  Inl e \<Rightarrow> Inl e
                | Inr _ \<Rightarrow>
                    (case insert_into E t tb (build_row E (columns tb) (zip cols vals)) of
                       Inl e \<Rightarrow> Inl e
                     | Inr tb' \<Rightarrow> Inr (s(t \<mapsto> tb'))))))"

subsection \<open>SELECT ... FROM t WHERE c = ? AND ...\<close>

text \<open>
  \<^verbatim>\<open>c = ?\<close> compares the stored value with the parameter under the affinity of the column,
  and is never true when either side is NULL. The rows come in scan order; none of the
  queries of the program can be answered from an index alone.
\<close>

definition matches :: "'f engine \<Rightarrow> 'f table \<Rightarrow> (string \<times> pyval) list \<Rightarrow> 'f row \<Rightarrow> bool" where
  "matches E tb conds r \<longleftrightarrow>
     list_all (\<lambda>(c, v). cell r c \<noteq> Null \<and> cell r c = store_value E (affinity_of tb c) v) conds"

definition project :: "string list option \<Rightarrow> 'f row \<Rightarrow> 'f row" where
  "project sel r = (case sel of None \<Rightarrow> r | Some cs \<Rightarrow> map (\<lambda>c. (c, cell r c)) cs)"

definition sql_select ::
  "'f engine \<Rightarrow> 'f db \<Rightarrow> string list option \<Rightarrow> string \<Rightarrow> (string \<times> pyval) list
     \<Rightarrow> exn + 'f row list" where
  "sql_select E s sel t conds =
     (case s t of
        None \<Rightarrow> Inl (OperationalError (''no such table: '' @ t))
      | Some tb \<Rightarrow>
          (case find (\<lambda>c. c \<notin> set (column_names tb))
                  ((case sel of None \<Rightarrow> [] | Some cs \<Rightarrow> cs) @ map fst conds) of
             Some c \<Rightarrow> Inl (OperationalError (''no such column: '' @ c))
           | None \<Rightarrow>
               (case bind_params (map snd conds) of
                  Inl e \<Rightarrow> Inl e
                | Inr _ \<Rightarrow> Inr (map (project sel) (filter (matches E tb conds) (rows tb))))))"

definition fetchone :: "'a list \<Rightarrow> 'a option" where
  "fetchone rs = (case rs of [] \<Rightarrow> None | r # _ \<Rightarrow> Some r)"

subsection \<open>UPDATE t SET c = c + ? WHERE ...\<close>

text \<open>
  Every matching row gets the sum; the statement fails as a whole, changing nothing,
  when a sum written to a NOT NULL column is NULL. The program runs it on \<open>delivery.quantity\<close>
  only, whose INTEGER affinity keeps an integer and a REAL out of the 64-bit range as
  they are.
\<close>

definition add_to_cell :: "'f engine \<Rightarrow> string \<Rightarrow> pyval \<Rightarrow> 'f row \<Rightarrow> 'f row" where
  "add_to_cell E col delta r =
     map (\<lambda>(c, v). (c, if c = col then sql_add E v (param_value delta) else v)) r"

definition sql_update_add ::
  "'f engine \<Rightarrow> 'f db \<Rightarrow> string \<Rightarrow> string \<Rightarrow> pyval \<Rightarrow> (string \<times> pyval) list \<Rightarrow> exn + 'f db" where
  "sql_update_add E s t col delta conds =
     (case s t of
        None \<Rightarrow> Inl (OperationalError (''no such table: '' @ t))
      | Some tb \<Rightarrow>
          (case find (\<lambda>c. c \<notin> set (column_names tb)) (col # map fst conds) of
             Some c \<Rightarrow> Inl (OperationalError (''no such column: '' @ c))
           | None \<Rightarrow>
               (case bind_params (delta # map snd conds) of
                  Inl e \<Rightarrow> Inl e
                | Inr _ \<Rightarrow>
                    (let hit = filter (matches E tb conds) (rows tb);
                         rs = map (\<lambda>r. if matches E tb conds r then add_to_cell E col delta r else r)
                                (rows tb) in
                     case List.map_filter (null_violation (columns tb))
                            (map (add_to_cell E col delta) hit) of
                       c # _ \<Rightarrow> Inl (IntegrityError (''NOT NULL constraint failed: '' @ t @ ''.'' @ c))
                     | [] \<Rightarrow> Inr (s(t \<mapsto> tb\<lparr>rows := rs\<rparr>))))))"

section \<open>The access layer\<close>

text \<open>
  \<^verbatim>\<open>except sqlite3.Error as exc: conn.rollback(); conn.close(); return False, str(exc)\<close>:
  the store stays as it was before the statement and the message is returned. Any other
  exception leaves the function; the connection is dropped without a commit.
\<close>

fun failed :: "exn \<Rightarrow> 'f db \<Rightarrow> (bool \<times> string) outcome \<times> 'f db" where
  "failed (OperationalError m) s = (Returned (False, m), s)"
| "failed (IntegrityError m) s = (Returned (False, m), s)"
| "failed (OverflowError m) s = (Raised (OverflowError m), s)"

definition insert_row ::
  "'f engine \<Rightarrow> 'f db \<Rightarrow> string \<Rightarrow> (string \<times> pyval) list \<Rightarrow> (bool \<times> string) outcome \<times> 'f db" where
  "insert_row E s t payload =
     (if payload = [] then (Returned (False, ''Empty payload''), s)
      else
        (case sql_insert E s t (map fst payload) (map snd payload) of
           Inl e \<Rightarrow> failed e s
         | Inr s' \<Rightarrow> (Returned (True, ''inserted''), s')))"

text \<open>\<^verbatim>\<open>SELECT * FROM t\<close>; no exception is caught in the three readers.\<close>

definition get_all :: "'f engine \<Rightarrow> 'f db \<Rightarrow> string \<Rightarrow> 'f row list outcome" where
  "get_all E s t =
     (case sql_select E s None t [] of
        Inl e \<Rightarrow> Raised e
      | Inr rs \<Rightarrow> Returned rs)"

definition get_by_id :: "'f engine \<Rightarrow> 'f db \<Rightarrow> string \<Rightarrow> pyval \<Rightarrow> 'f row option outcome" where
  "get_by_id E s t id_value =
     (case sql_select E s None t [(''id'', id_value)] of
        Inl e \<Rightarrow> Raised e
      | Inr rs \<Rightarrow> Returned (fetchone rs))"

definition rows_to_list :: "'f row list \<Rightarrow> string \<Rightarrow> 'f sqlval list" where
  "rows_to_list rs column = map (\<lambda>row. cell row column) rs"

definition get_column_values :: "'f engine \<Rightarrow> 'f db \<Rightarrow> string \<Rightarrow> string \<Rightarrow> 'f sqlval list outcome" where
  "get_column_values E s t column =
     (case sql_select E s (Some [column]) t [] of
        Inl e \<Rightarrow> Raised e
      | Inr rs \<Rightarrow> Returned (rows_to_list rs column))"

subsection \<open>The delivery upsert\<close>

definition required :: "string list" where
  "required = [''seller_id'', ''catalog_id'', ''quantity'']"

text \<open>\<^verbatim>\<open>payload[k]\<close>, read only after the check that the key is there.\<close>

definition field :: "(string \<times> pyval) list \<Rightarrow> string \<Rightarrow> pyval" where
  "field payload k = (case map_of payload k of Some v \<Rightarrow> v | None \<Rightarrow> PNone)"

text \<open>
  The two statements of \<^verbatim>\<open>insert_or_add_delivery\<close>. The SELECT runs outside a transaction
  (the module opens one only before an INSERT or UPDATE), so each of them is a step of
  its own on the store.
\<close>

definition upsert_lookup :: "'f engine \<Rightarrow> 'f db \<Rightarrow> pyval \<Rightarrow> pyval \<Rightarrow> exn + 'f row option" where
  "upsert_lookup E s seller_id catalog_id =
     (case sql_select E s (Some [''quantity'']) ''delivery''
             [(''seller_id'', seller_id), (''catalog_id'', catalog_id)] of
        Inl e \<Rightarrow> Inl e
      | Inr rs \<Rightarrow> Inr (fetchone rs))"

definition upsert_write ::
  "'f engine \<Rightarrow> 'f db \<Rightarrow> 'f row option \<Rightarrow> pyval \<Rightarrow> pyval \<Rightarrow> pyval \<Rightarrow> exn + 'f db" where
  "upsert_write E s row seller_id catalog_id quantity =
     (case row of
        Some _ \<Rightarrow>
          sql_update_add E s ''delivery'' ''quantity'' quantity
            [(''seller_id'', seller_id), (''catalog_id'', catalog_id)]
      | None \<Rightarrow>
          sql_insert E s ''delivery'' [''seller_id'', ''catalog_id'', ''quantity'']
            [seller_id, catalog_id, quantity])"

definition insert_or_add_delivery ::
  "'f engine \<Rightarrow> 'f db \<Rightarrow> (string \<times> pyval) list \<Rightarrow> (bool \<times> string) outcome \<times> 'f db" where
  "insert_or_add_delivery E s payload =
     (if \<not> set required \<subseteq> fst ` set payload
      then (Returned (False, ''seller_id, catalog_id and quantity are required''), s)
      else
        (let seller_id = field payload ''seller_id'';
             catalog_id = field payload ''catalog_id'';
             quantity = field payload ''quantity''
         in case upsert_lookup E s seller_id catalog_id of
              Inl e \<Rightarrow> failed e s
            | Inr row \<Rightarrow>
                (case upsert_write E s row seller_id catalog_id quantity of
                   Inl e \<Rightarrow> failed e s
                 | Inr s' \<Rightarrow> (Returned (True, ''inserted''), s'))))"

section \<open>The initializer\<close>

definition col :: "string \<Rightarrow> affinity \<Rightarrow> bool \<Rightarrow> column" where
  "col n a nn = \<lparr>cname = n, ctype = a, notnull = nn\<rparr>"

definition schema :: "(string \<times> column list \<times> pkey) list" where
  "schema =
     [(''customer'', [col ''id'' AffInteger False, col ''name'' AffText True], RowidAlias ''id''),
      (''seller'', [col ''id'' AffInteger False, col ''nation'' AffText True], RowidAlias ''id''),
      (''catalog'',
         [col ''id'' AffInteger False, col ''name'' AffText True, col ''color'' AffText True],
         RowidAlias ''id''),
      (''order'',
         [col ''id'' AffInteger False, col ''customer_id'' AffInteger True,
          col ''date'' AffText True, col ''item_id'' AffInteger False],
         RowidAlias ''id''),
      (''order_item'',
         [col ''order_id'' AffInteger True, col ''catalog_id'' AffInteger True,
          col ''quantity'' AffInteger True],
         Composite [''order_id'', ''catalog_id'']),
      (''delivery'',
         [col ''seller_id'' AffInteger True, col ''catalog_id'' AffInteger True,
          col ''quantity'' AffInteger True],
         Composite [''seller_id'', ''catalog_id''])]"

text \<open>\<^verbatim>\<open>CREATE TABLE IF NOT EXISTS\<close>: a table that is there is left as it is.\<close>

definition create_table :: "string \<times> column list \<times> pkey \<Rightarrow> 'f db \<Rightarrow> 'f db" where
  "create_table d s =
     (case d of (t, cs, k) \<Rightarrow>
        (case s t of
           Some _ \<Rightarrow> s
         | None \<Rightarrow> s(t \<mapsto> \<lparr>columns = cs, pk = k, rows = []\<rparr>)))"

definition create_tables :: "'f db \<Rightarrow> 'f db" where
  "create_tables s = fold create_table schema s"

text \<open>
  \<^verbatim>\<open>PRAGMA table_info("order")\<close> and, if \<open>item_id\<close> is not among the columns,
  \<^verbatim>\<open>ALTER TABLE "order" ADD COLUMN item_id INTEGER\<close>: the rows there get NULL in it.
\<close>

definition add_item_id :: "'f db \<Rightarrow> 'f db" where
  "add_item_id s =
     (case s ''order'' of
        None \<Rightarrow> s
      | Some tb \<Rightarrow>
          if ''item_id'' \<in> set (column_names tb) then s
          else s(''order'' \<mapsto>
                 tb\<lparr>columns := columns tb @ [col ''item_id'' AffInteger False],
                    rows := map (\<lambda>r. r @ [(''item_id'', Null)]) (rows tb)\<rparr>))"

fun executemany ::
  "'f engine \<Rightarrow> 'f db \<Rightarrow> string \<Rightarrow> string list \<Rightarrow> pyval list list \<Rightarrow> exn + 'f db" where
  "executemany E s t cols [] = Inr s"
| "executemany E s t cols (vs # rest) =
     (case sql_insert E s t cols vs of
        Inl e \<Rightarrow> Inl e
      | Inr s' \<Rightarrow> executemany E s' t cols rest)"

definition table_empty :: "'f db \<Rightarrow> string \<Rightarrow> exn + bool" where
  "table_empty s t =
     (case s t of
        None \<Rightarrow> Inl (OperationalError (''no such table: '' @ t))
      | Some tb \<Rightarrow> Inr (length (rows tb) = 0))"

definition seed :: "'f engine \<Rightarrow> string \<Rightarrow> string list \<Rightarrow> pyval list list \<Rightarrow> 'f db \<Rightarrow> exn + 'f db" where
  "seed E t cols data s =
     (case table_empty s t of
        Inl e \<Rightarrow> Inl e
      | Inr True \<Rightarrow> executemany E s t cols data
      | Inr False \<Rightarrow> Inr s)"

definition seeds :: "(string \<times> string list \<times> pyval list list) list" where
  "seeds =
     [(''customer'', [''id'', ''name''],
         [[PInt 1, PStr ''Alice''], [PInt 2, PStr ''Bob''], [PInt 3, PStr ''Carol'']]),
      (''seller'', [''id'', ''nation''],
         [[PInt 1, PStr ''Italy''], [PInt 2, PStr ''France'']]),
      (''catalog'', [''id'', ''name'', ''color''],
         [[PInt 1, PStr ''T-Shirt'', PStr ''red''],
          [PInt 2, PStr ''T-Shirt'', PStr ''blue''],
          [PInt 3, PStr ''Shoes'', PStr ''black'']]),
      (''order'', [''id'', ''customer_id'', ''date'', ''item_id''],
         [[PInt 1, PInt 1, PStr ''2026-02-01'', PInt 1],
          [PInt 2, PInt 2, PStr ''2026-02-02'', PInt 2]]),
      (''order_item'', [''order_id'', ''catalog_id'', ''quantity''],
         [[PInt 1, PInt 1, PInt 2], [PInt 1, PInt 3, PInt 1], [PInt 2, PInt 2, PInt 1]]),
      (''delivery'', [''seller_id'', ''catalog_id'', ''quantity''],
         [[PInt 1, PInt 1, PInt 100], [PInt 1, PInt 2, PInt 50], [PInt 2, PInt 3, PInt 70]])]"

fun seed_all ::
  "'f engine \<Rightarrow> (string \<times> string list \<times> pyval list list) list \<Rightarrow> 'f db \<Rightarrow> exn + 'f db" where
  "seed_all E [] s = Inr s"
| "seed_all E ((t, cols, data) # rest) s =
     (case seed E t cols data s of
        Inl e \<Rightarrow> Inl e
      | Inr s' \<Rightarrow> seed_all E rest s')"

text \<open>
  The script and the ALTER TABLE run outside a transaction and stay; the seed rows are
  written by the one \<^verbatim>\<open>conn.commit()\<close> at the end, so an exception on the way leaves none
  of them. The function catches nothing.
\<close>

definition init_db :: "'f engine \<Rightarrow> 'f db \<Rightarrow> unit outcome \<times> 'f db" where
  "init_db E s =
     (let s1 = add_item_id (create_tables s) in
      case seed_all E seeds s1 of
        Inl e \<Rightarrow> (Raised e, s1)
      | Inr s2 \<Rightarrow> (Returned (), s2))"

definition empty_db :: "'f db" where
  "empty_db = Map.empty"

section \<open>Concurrent upserts\<close>

text \<open>
  Each request of the threaded server runs \<^verbatim>\<open>insert_or_add_delivery\<close> on a connection of
  its own. No lock is held between the SELECT and the statement that writes, so the
  requests interleave statement by statement on the one store. A request is at its
  SELECT, at its write (with the row the SELECT gave it), or done.
\<close>

datatype 'f request =
    AtSelect "(string \<times> pyval) list"
  | AtWrite "(string \<times> pyval) list" "'f row option"
  | Done "(bool \<times> string) outcome"

fun request_step :: "'f engine \<Rightarrow> 'f request \<Rightarrow> 'f db \<Rightarrow> 'f request \<times> 'f db" where
  "request_step E (AtSelect payload) s =
     (if \<not> set required \<subseteq> fst ` set payload
      then (Done (Returned (False, ''seller_id, catalog_id and quantity are required'')), s)
      else
        (case upsert_lookup E s (field payload ''seller_id'') (field payload ''catalog_id'') of
           Inl e \<Rightarrow> (Done (fst (failed e s)), s)
         | Inr row \<Rightarrow> (AtWrite payload row, s)))"
| "request_step E (AtWrite payload row) s =
     (case upsert_write E s row (field payload ''seller_id'') (field payload ''catalog_id'')
             (field payload ''quantity'') of
        Inl e \<Rightarrow> (Done (fst (failed e s)), s)
      | Inr s' \<Rightarrow> (Done (Returned (True, ''inserted'')), s'))"
| "request_step E (Done r) s = (Done r, s)"

text \<open>A schedule names, step by step, the request that runs its next statement.\<close>

fun run_schedule ::
  "'f engine \<Rightarrow> nat list \<Rightarrow> 'f request list \<Rightarrow> 'f db \<Rightarrow> 'f request list \<times> 'f db" where
  "run_schedule E [] reqs s = (reqs, s)"
| "run_schedule E (i # sched) reqs s =
     (if i < length reqs
      then (case request_step E (reqs ! i) s of
              (q, s') \<Rightarrow> run_schedule E sched (reqs[i := q]) s')
      else run_schedule E sched reqs s)"

section \<open>An engine to evaluate with\<close>

text \<open>
  An instance of the parameter for running the model on integers. Its REAL values are
  the doubles with an integer value, written as that integer: the sum of two 64-bit
  integers out of range is the sum of their nearest doubles, rounded to the nearest
  double (53 significant bits, ties to even). A sum with such a REAL as an operand is
  rounded in the same way, and the INTEGER column keeps it as an integer again when it
  lies strictly between the least and the greatest 64-bit integer. A sum with a text
  operand is not computed by this instance, and neither a text in an INTEGER column nor
  a random rowid is: no statement below consults them.
\<close>

function excess_bits :: "int \<Rightarrow> nat" where
  "excess_bits n = (if n < 9007199254740992 then 0 else Suc (excess_bits (n div 2)))"
  by pat_completeness auto
termination
  by (relation "measure nat") auto

definition round_magnitude :: "int \<Rightarrow> int" where
  "round_magnitude n =
     (let e = excess_bits n; q = n div 2 ^ e; r = n mod 2 ^ e in
      if e = 0 then n
      else if 2 * r > 2 ^ e \<or> (2 * r = 2 ^ e \<and> odd q) then (q + 1) * 2 ^ e
      else q * 2 ^ e)"

definition double_of_int :: "int \<Rightarrow> int" where
  "double_of_int i = (if i < 0 then - round_magnitude (- i) else round_magnitude i)"

definition keep_real :: "int \<Rightarrow> int sqlval" where
  "keep_real r =
     (if - 9223372036854775808 < r \<and> r < 9223372036854775807 then IntV r else RealV r)"

fun real_add :: "int sqlval \<Rightarrow> int sqlval \<Rightarrow> int sqlval" where
  "real_add (RealV x) (IntV y) = keep_real (double_of_int (x + double_of_int y))"
| "real_add (IntV x) (RealV y) = keep_real (double_of_int (double_of_int x + y))"
| "real_add (RealV x) (RealV y) = keep_real (double_of_int (x + y))"
| "real_add a b = Null"

definition ints_engine :: "int engine" where
  "ints_engine =
     \<lparr>numeric_text = TextV,
      overflow_add = (\<lambda>x y. double_of_int (double_of_int x + double_of_int y)),
      mixed_add = real_add,
      random_rowid = (\<lambda>ids. None)\<rparr>"

section \<open>Notions used in the statements\<close>



text \<open>The store after the first run of the initializer on a new file.\<close>

definition seeded_db :: "'f engine \<Rightarrow> 'f db" where
  "seeded_db E = snd (init_db E empty_db)"

text \<open>The payload of \<^verbatim>\<open>upsert_delivery(seller_id, catalog_id, quantity)\<close> on integers.\<close>

definition delivery_payload :: "int \<Rightarrow> int \<Rightarrow> int \<Rightarrow> (string \<times> pyval) list" where
  "delivery_payload seller_id catalog_id quantity =
     [(''seller_id'', PInt seller_id), (''catalog_id'', PInt catalog_id),
      (''quantity'', PInt quantity)]"

text \<open>A sequence of upserts, one after the other, with the result of each.\<close>

fun upsert_all ::
  "'f engine \<Rightarrow> 'f db \<Rightarrow> (string \<times> pyval) list list \<Rightarrow> (bool \<times> string) outcome list \<times> 'f db" where
  "upsert_all E s [] = ([], s)"
| "upsert_all E s (p # ps) =
     (case insert_or_add_delivery E s p of
        (r, s') \<Rightarrow> (case upsert_all E s' ps of (rs, s'') \<Rightarrow> (r # rs, s'')))"

fun running_totals :: "int \<Rightarrow> int list \<Rightarrow> int list" where
  "running_totals acc [] = []"
| "running_totals acc (q # qs) = (acc + q) # running_totals (acc + q) qs"

text \<open>The delivery rows of one key pair.\<close>

definition pair_rows :: "'f db \<Rightarrow> int \<Rightarrow> int \<Rightarrow> 'f row list" where
  "pair_rows s seller_id catalog_id =
     (case s ''delivery'' of
        None \<Rightarrow> []
      | Some tb \<Rightarrow>
          filter (\<lambda>r. cell r ''seller_id'' = IntV seller_id \<and> cell r ''catalog_id'' = IntV catalog_id)
            (rows tb))"

text \<open>The table is there with the columns and the key that \<^verbatim>\<open>init_db\<close> declares.\<close>

definition declared :: "'f db \<Rightarrow> string \<Rightarrow> bool" where
  "declared s t =
     (case (s t, map_of schema t) of
        (Some tb, Some (cs, k)) \<Rightarrow> columns tb = cs \<and> pk tb = k
      | _ \<Rightarrow> False)"

text \<open>No two rows of the table agree on all the key columns.\<close>

definition unique_keys :: "'f db \<Rightarrow> string \<Rightarrow> string list \<Rightarrow> bool" where
  "unique_keys s t ks =
     (case s t of
        None \<Rightarrow> True
      | Some tb \<Rightarrow> distinct (map (\<lambda>r. map (cell r) ks) (rows tb)))"

definition keyed :: "'f db \<Rightarrow> string \<Rightarrow> string list \<Rightarrow> bool" where
  "keyed s t ks =
     (case s t of
        None \<Rightarrow> True
      | Some tb \<Rightarrow> pk tb = Composite ks \<and> distinct (map (\<lambda>r. map (cell r) ks) (rows tb)))"

text \<open>
  The stores the program can be in: a new file, and whatever the initializer, an insert
  or an upsert leaves, whether it succeeds or not.
\<close>

inductive reachable :: "'f engine \<Rightarrow> 'f db \<Rightarrow> bool" for E :: "'f engine" where
  new_file: "reachable E empty_db"
| after_init: "reachable E s \<Longrightarrow> reachable E (snd (init_db E s))"
| after_insert: "reachable E s \<Longrightarrow> reachable E (snd (insert_row E s t payload))"
| after_upsert: "reachable E s \<Longrightarrow> reachable E (snd (insert_or_add_delivery E s payload))"

definition nonempty :: "'f db \<Rightarrow> string \<Rightarrow> bool" where
  "nonempty s t \<longleftrightarrow> (case s t of None \<Rightarrow> False | Some tb \<Rightarrow> rows tb \<noteq> [])"

definition has_column :: "'f db \<Rightarrow> string \<Rightarrow> string \<Rightarrow> bool" where
  "has_column s t c \<longleftrightarrow> (case s t of None \<Rightarrow> False | Some tb \<Rightarrow> c \<in> set (column_names tb))"

text \<open>Every one of the six tables is there and holds a row.\<close>

definition populated :: "'f db \<Rightarrow> bool" where
  "populated s \<longleftrightarrow> list_all (nonempty s) (map fst schema)"

definition row_count :: "'f db \<Rightarrow> string \<Rightarrow> nat option" where
  "row_count s t = map_option (\<lambda>tb. length (rows tb)) (s t)"

section \<open>Evaluating the initializer and the readers\<close>

lemmas run_defs = init_db_def seeds_def schema_def create_tables_def create_table_def
  add_item_id_def seed_def table_empty_def sql_insert_def insert_into_def empty_db_def
  column_names_def col_def bind_params_def in_int64_def build_row_def null_violation_def
  cell_def same_key_def rowid_of_def next_rowid_def

lemma init_db_new_file: "fst (init_db E empty_db) = Returned ()"
  by (simp add: run_defs)

lemma seeded_customer:
  "seeded_db E ''customer'' =
     Some \<lparr>columns = [col ''id'' AffInteger False, col ''name'' AffText True],
           pk = RowidAlias ''id'',
           rows = [[(''id'', IntV 1), (''name'', TextV ''Alice'')],
                   [(''id'', IntV 2), (''name'', TextV ''Bob'')],
                   [(''id'', IntV 3), (''name'', TextV ''Carol'')]]\<rparr>"
  unfolding seeded_db_def by (simp add: run_defs)

lemma seeded_catalog:
  "seeded_db E ''catalog'' =
     Some \<lparr>columns = [col ''id'' AffInteger False, col ''name'' AffText True,
                      col ''color'' AffText True],
           pk = RowidAlias ''id'',
           rows = [[(''id'', IntV 1), (''name'', TextV ''T-Shirt''), (''color'', TextV ''red'')],
                   [(''id'', IntV 2), (''name'', TextV ''T-Shirt''), (''color'', TextV ''blue'')],
                   [(''id'', IntV 3), (''name'', TextV ''Shoes''), (''color'', TextV ''black'')]]\<rparr>"
  unfolding seeded_db_def by (simp add: run_defs)

lemma seeded_delivery:
  "seeded_db E ''delivery'' =
     Some \<lparr>columns = [col ''seller_id'' AffInteger True, col ''catalog_id'' AffInteger True,
                      col ''quantity'' AffInteger True],
           pk = Composite [''seller_id'', ''catalog_id''],
           rows = [[(''seller_id'', IntV 1), (''catalog_id'', IntV 1), (''quantity'', IntV 100)],
                   [(''seller_id'', IntV 1), (''catalog_id'', IntV 2), (''quantity'', IntV 50)],
                   [(''seller_id'', IntV 2), (''catalog_id'', IntV 3), (''quantity'', IntV 70)]]\<rparr>"
  unfolding seeded_db_def by (simp add: run_defs)

lemma project_all: "map (project None) rs = rs"
  by (induction rs) (simp_all add: project_def)

lemma get_all_table: "s t = Some tb \<Longrightarrow> get_all E s t = Returned (rows tb)"
  by (simp add: get_all_def sql_select_def bind_params_def matches_def project_all)

lemma failed_not_ok: "fst (failed e s) \<noteq> Returned (True, m)"
  by (cases e) simp_all

lemma failed_keeps_store: "snd (failed e s) = s"
  by (cases e) simp_all



section \<open>The claims\<close>

text \<open>
  C4. After the first initialization of an empty store, \<open>list_all("customer")\<close> returns
  the rows (1, Alice), (2, Bob), (3, Carol) in this order and \<open>list_all("delivery")\<close>
  returns the rows (1, 1, 100), (1, 2, 50), (2, 3, 70) in this order; the initializer
  itself returns without an exception.
\<close>

theorem seed_literal_scenario:
  "fst (init_db E empty_db) = Returned () \<and>
   get_all E (seeded_db E) ''customer'' =
     Returned [[(''id'', IntV 1), (''name'', TextV ''Alice'')],
               [(''id'', IntV 2), (''name'', TextV ''Bob'')],
               [(''id'', IntV 3), (''name'', TextV ''Carol'')]] \<and>
   get_all E (seeded_db E) ''delivery'' =
     Returned [[(''seller_id'', IntV 1), (''catalog_id'', IntV 1), (''quantity'', IntV 100)],
               [(''seller_id'', IntV 1), (''catalog_id'', IntV 2), (''quantity'', IntV 50)],
               [(''seller_id'', IntV 2), (''catalog_id'', IntV 3), (''quantity'', IntV 70)]]"
  by (simp add: init_db_new_file get_all_table seeded_customer seeded_delivery)

text \<open>
  C5. An insert with an empty payload returns the failure \<open>Empty payload\<close> and leaves the
  store as it was, for every table name; an upsert whose payload lacks one of
  \<open>seller_id\<close>, \<open>catalog_id\<close>, \<open>quantity\<close> returns the failure that names the three
  required fields and leaves the store as it was. Neither sends a statement.
\<close>

theorem rejects_without_touching_store:
  "insert_row E s t [] = (Returned (False, ''Empty payload''), s) \<and>
   (k \<in> set required \<and> k \<notin> fst ` set payload \<longrightarrow>
      insert_or_add_delivery E s payload =
        (Returned (False, ''seller_id, catalog_id and quantity are required''), s))"
  by (auto simp add: insert_row_def insert_or_add_delivery_def)

theorem rejects_without_touching_store_witness:
  "''catalog_id'' \<in> set required \<and>
   ''catalog_id'' \<notin> fst ` set [(''seller_id'', PInt 1), (''quantity'', PInt 5)] \<and>
   insert_or_add_delivery ints_engine empty_db [(''seller_id'', PInt 1), (''quantity'', PInt 5)] =
     (Returned (False, ''seller_id, catalog_id and quantity are required''), empty_db)"
  using rejects_without_touching_store
    [of ints_engine empty_db "''customer''" "''catalog_id''"
        "[(''seller_id'', PInt 1), (''quantity'', PInt 5)]"]
  by (simp add: required_def)




text \<open>
  C7, as amended. In a table with an \<open>id\<close> column, for every id that the module can bind
  (null, a string, an integer of the signed 64-bit range) and that no row carries,
  \<open>get_by_id\<close> returns \<open>None\<close> and raises nothing; so does \<open>get_by_id("customer", 9999)\<close> on
  the seeded store.
\<close>

theorem get_by_id_miss:
  "s t = Some tb \<Longrightarrow> ''id'' \<in> set (column_names tb) \<Longrightarrow> bindable v \<Longrightarrow>
   \<forall>r \<in> set (rows tb). cell r ''id'' \<noteq> store_value E (affinity_of tb ''id'') v \<Longrightarrow>
   get_by_id E s t v = Returned None"
  by (simp add: get_by_id_def sql_select_def bind_params_def matches_def project_all
      fetchone_def filter_empty_conv split: list.splits)

theorem get_by_id_miss_witness:
  "bindable (PInt 9999) \<and>
   get_all ints_engine (seeded_db ints_engine) ''customer'' =
     Returned [[(''id'', IntV 1), (''name'', TextV ''Alice'')],
               [(''id'', IntV 2), (''name'', TextV ''Bob'')],
               [(''id'', IntV 3), (''name'', TextV ''Carol'')]] \<and>
   get_by_id ints_engine (seeded_db ints_engine) ''customer'' (PInt 9999) = Returned None"
proof -
  have "get_by_id ints_engine (seeded_db ints_engine) ''customer'' (PInt 9999) = Returned None"
    by (rule get_by_id_miss [where s = "seeded_db ints_engine" and t = "''customer''",
          OF seeded_customer])
       (simp_all add: column_names_def col_def in_int64_def affinity_of_def cell_def)
  then show ?thesis
    by (simp add: in_int64_def get_all_table seeded_customer)
qed

text \<open>
  The claim as stated, for every id, fails: 9223372036854775808 is the id of no customer,
  and \<open>get_by_id\<close> raises \<open>OverflowError\<close> on it instead of returning \<open>None\<close>.
\<close>

theorem get_by_id_miss_counterexample:
  "get_all ints_engine (seeded_db ints_engine) ''customer'' =
     Returned [[(''id'', IntV 1), (''name'', TextV ''Alice'')],
               [(''id'', IntV 2), (''name'', TextV ''Bob'')],
               [(''id'', IntV 3), (''name'', TextV ''Carol'')]] \<and>
   get_by_id ints_engine (seeded_db ints_engine) ''customer'' (PInt 9223372036854775808) =
     Raised (OverflowError ''Python int too large to convert to SQLite INTEGER'') \<and>
   get_by_id ints_engine (seeded_db ints_engine) ''customer'' (PInt 9223372036854775808) \<noteq>
     Returned None"
  by (simp add: get_all_table get_by_id_def sql_select_def seeded_customer
      column_names_def col_def bind_params_def in_int64_def)

text \<open>
  C8. In every store that has the \<open>catalog\<close> table with its \<open>name\<close> column, both readers
  return, and \<open>get_column("catalog", "name")\<close> is the \<open>name\<close> of each row of
  \<open>list_all("catalog")\<close>, row by row in the same order.
\<close>

theorem column_projection_order:
  "s ''catalog'' = Some tb \<Longrightarrow> ''name'' \<in> set (column_names tb) \<Longrightarrow>
   \<exists>rs. get_all E s ''catalog'' = Returned rs \<and>
        get_column_values E s ''catalog'' ''name'' = Returned (map (\<lambda>row. cell row ''name'') rs)"
  by (simp add: get_all_def get_column_values_def sql_select_def bind_params_def matches_def
      project_def project_all rows_to_list_def cell_def comp_def)

theorem column_projection_order_witness:
  "get_all ints_engine (seeded_db ints_engine) ''catalog'' =
     Returned [[(''id'', IntV 1), (''name'', TextV ''T-Shirt''), (''color'', TextV ''red'')],
               [(''id'', IntV 2), (''name'', TextV ''T-Shirt''), (''color'', TextV ''blue'')],
               [(''id'', IntV 3), (''name'', TextV ''Shoes''), (''color'', TextV ''black'')]] \<and>
   get_column_values ints_engine (seeded_db ints_engine) ''catalog'' ''name'' =
     Returned [TextV ''T-Shirt'', TextV ''T-Shirt'', TextV ''Shoes'']"
proof -
  have "''name'' \<in> set (column_names
          \<lparr>columns = [col ''id'' AffInteger False, col ''name'' AffText True,
                      col ''color'' AffText True],
           pk = RowidAlias ''id'',
           rows = [[(''id'', IntV 1), (''name'', TextV ''T-Shirt''), (''color'', TextV ''red'')],
                   [(''id'', IntV 2), (''name'', TextV ''T-Shirt''), (''color'', TextV ''blue'')],
                   [(''id'', IntV 3), (''name'', TextV ''Shoes''), (''color'', TextV ''black'')]]\<rparr>)"
    by (simp add: column_names_def col_def)
  from column_projection_order [where s = "seeded_db ints_engine" and E = ints_engine,
      OF seeded_catalog this]
  show ?thesis
    by (simp add: get_all_table seeded_catalog cell_def)
qed


text \<open>
  C10. The upsert reads nothing of its payload but the three fields: two payloads that
  both hold \<open>seller_id\<close>, \<open>catalog_id\<close> and \<open>quantity\<close> with the same values give the same
  result and the same store, whatever else they hold and in whatever order. Its message
  on success is \<open>inserted\<close> on either path, after an INSERT as after an UPDATE.
\<close>

theorem upsert_reads_three_fields:
  "(set required \<subseteq> fst ` set p1 \<and> set required \<subseteq> fst ` set p2 \<and>
    (\<forall>k \<in> set required. map_of p1 k = map_of p2 k) \<longrightarrow>
      insert_or_add_delivery E s p1 = insert_or_add_delivery E s p2) \<and>
   (fst (insert_or_add_delivery E s p) = Returned (True, m) \<longrightarrow> m = ''inserted'')"
proof (intro conjI impI)
  assume "set required \<subseteq> fst ` set p1 \<and> set required \<subseteq> fst ` set p2 \<and>
    (\<forall>k \<in> set required. map_of p1 k = map_of p2 k)"
  then show "insert_or_add_delivery E s p1 = insert_or_add_delivery E s p2"
    by (simp add: insert_or_add_delivery_def field_def required_def)
next
  assume "fst (insert_or_add_delivery E s p) = Returned (True, m)"
  then show "m = ''inserted''"
    by (auto simp add: insert_or_add_delivery_def Let_def failed_not_ok
        split: if_splits sum.splits)
qed


theorem upsert_reads_three_fields_witness:
  "set required \<subseteq> fst ` set (delivery_payload 1 1 5) \<and>
   set required \<subseteq>
     fst ` set [(''note'', PStr ''x''), (''quantity'', PInt 5), (''catalog_id'', PInt 1),
                (''seller_id'', PInt 1)] \<and>
   insert_or_add_delivery ints_engine (seeded_db ints_engine) (delivery_payload 1 1 5) =
     insert_or_add_delivery ints_engine (seeded_db ints_engine)
       [(''note'', PStr ''x''), (''quantity'', PInt 5), (''catalog_id'', PInt 1),
        (''seller_id'', PInt 1)] \<and>
   fst (insert_or_add_delivery ints_engine (seeded_db ints_engine) (delivery_payload 1 1 5)) =
     Returned (True, ''inserted'') \<and>
   fst (insert_or_add_delivery ints_engine (seeded_db ints_engine) (delivery_payload 9 9 5)) =
     Returned (True, ''inserted'')"
proof -
  have update_path:
    "fst (insert_or_add_delivery ints_engine (seeded_db ints_engine) (delivery_payload 1 1 5)) =
       Returned (True, ''inserted'')"
    by code_simp
  have insert_path:
    "fst (insert_or_add_delivery ints_engine (seeded_db ints_engine) (delivery_payload 9 9 5)) =
       Returned (True, ''inserted'')"
    by code_simp
  from upsert_reads_three_fields
    [of "delivery_payload 1 1 5"
        "[(''note'', PStr ''x''), (''quantity'', PInt 5), (''catalog_id'', PInt 1),
          (''seller_id'', PInt 1)]"
        ints_engine "seeded_db ints_engine" "delivery_payload 1 1 5" "''inserted''"]
    update_path insert_path
  show ?thesis
    by (simp add: required_def delivery_payload_def)
qed


section \<open>One request alone\<close>

text \<open>
  A request that runs its two statements with no other request in between is the
  function \<^verbatim>\<open>insert_or_add_delivery\<close> itself.
\<close>

lemma request_alone:
  "run_schedule E [0, 0] [AtSelect payload] s =
     ([Done (fst (insert_or_add_delivery E s payload))],
      snd (insert_or_add_delivery E s payload))"
proof (cases "set required \<subseteq> fst ` set payload")
  case False
  then show ?thesis
    by (simp add: insert_or_add_delivery_def)
next
  case True
  show ?thesis
  proof (cases "upsert_lookup E s (field payload ''seller_id'') (field payload ''catalog_id'')")
    case (Inl e)
    with True show ?thesis
      by (simp add: insert_or_add_delivery_def failed_keeps_store)
  next
    case (Inr row)
    with True show ?thesis
      by (cases "upsert_write E s row (field payload ''seller_id'')
                   (field payload ''catalog_id'') (field payload ''quantity'')")
         (simp_all add: insert_or_add_delivery_def failed_keeps_store)
  qed
qed


text \<open>
  C9. The claim asks that N concurrent \<open>upsert_delivery(s, c, 1)\<close> on a fresh pair leave
  the quantity N. The code does not give that: with two requests for the fresh pair
  (9, 9) on the seeded store, scheduled SELECT, SELECT, write, write, both find no row,
  both send the INSERT, the second is rejected by the primary key, and the quantity
  stored is 1.
\<close>

theorem concurrent_upserts_lose_one:
  "fst (run_schedule ints_engine [0, 1, 0, 1]
          [AtSelect (delivery_payload 9 9 1), AtSelect (delivery_payload 9 9 1)]
          (seeded_db ints_engine)) =
     [Done (Returned (True, ''inserted'')),
      Done (Returned (False,
        ''UNIQUE constraint failed: delivery.seller_id, delivery.catalog_id''))] \<and>
   pair_rows (snd (run_schedule ints_engine [0, 1, 0, 1]
          [AtSelect (delivery_payload 9 9 1), AtSelect (delivery_payload 9 9 1)]
          (seeded_db ints_engine))) 9 9 =
     [[(''seller_id'', IntV 9), (''catalog_id'', IntV 9), (''quantity'', IntV 1)]]"
  by code_simp


section \<open>What an INSERT and an UPDATE change\<close>

lemma sql_insert_Inr:
  assumes "sql_insert E s t cols vals = Inr s'"
  obtains tb tb' r where "s t = Some tb" and "insert_into E t tb r = Inr tb'"
    and "s' = s(t \<mapsto> tb')"
  using assms unfolding sql_insert_def
  by (auto split: option.splits sum.splits)

lemma insert_into_shape:
  assumes "insert_into E t tb r0 = Inr tb'"
  shows "columns tb' = columns tb" and "pk tb' = pk tb"
    and "length (rows tb') = Suc (length (rows tb))"
proof -
  have len: "length (takeWhile P xs) + length (dropWhile P xs) = length xs" for P and xs :: "'a row list"
    by (metis length_append takeWhile_dropWhile_id)
  from assms show "columns tb' = columns tb" and "pk tb' = pk tb"
    unfolding insert_into_def
    by (auto simp add: Let_def split: pkey.splits sum.splits option.splits if_splits sqlval.splits)
  from assms show "length (rows tb') = Suc (length (rows tb))"
    unfolding insert_into_def
    by (auto simp add: Let_def len split: pkey.splits sum.splits option.splits if_splits
        sqlval.splits)
qed

lemma insert_into_composite:
  assumes "pk tb = Composite ks" and "insert_into E t tb r0 = Inr tb'"
  shows "rows tb' = rows tb @ [r0]" and "\<not> list_ex (same_key ks r0) (rows tb)"
  using assms unfolding insert_into_def
  by (auto split: option.splits if_splits)

lemma same_key_iff: "same_key ks r r' \<longleftrightarrow> map (cell r) ks = map (cell r') ks"
  by (induction ks) (auto simp add: same_key_def)

lemma cell_add_to_cell: "k \<noteq> c \<Longrightarrow> cell (add_to_cell E c d r) k = cell r k"
  by (induction r) (auto simp add: cell_def add_to_cell_def)

lemma sql_update_add_Inr:
  assumes "sql_update_add E s t c d conds = Inr s'"
  obtains tb where "s t = Some tb"
    and "s' = s(t \<mapsto> tb\<lparr>rows := map (\<lambda>r. if matches E tb conds r then add_to_cell E c d r else r)
                                     (rows tb)\<rparr>)"
  using assms unfolding sql_update_add_def
  by (auto simp add: Let_def split: option.splits sum.splits list.splits)

section \<open>One row per key\<close>

lemma keyed_insert:
  assumes "sql_insert E s t' cols vals = Inr s'" and "keyed s t ks"
  shows "keyed s' t ks"
proof -
  from assms(1) obtain tb tb' r where tb: "s t' = Some tb"
    and ins: "insert_into E t' tb r = Inr tb'" and s': "s' = s(t' \<mapsto> tb')"
    by (rule sql_insert_Inr)
  show ?thesis
  proof (cases "t = t'")
    case False
    with assms(2) s' show ?thesis by (simp add: keyed_def)
  next
    case True
    with assms(2) tb have pk: "pk tb = Composite ks"
      and dist: "distinct (map (\<lambda>r. map (cell r) ks) (rows tb))"
      by (simp_all add: keyed_def)
    from insert_into_composite [OF pk ins] have rows': "rows tb' = rows tb @ [r]"
      and fresh: "\<not> list_ex (same_key ks r) (rows tb)"
      by simp_all
    from fresh have "map (cell r) ks \<notin> set (map (\<lambda>r. map (cell r) ks) (rows tb))"
      by (auto simp add: list_ex_iff same_key_iff)
    with dist rows' insert_into_shape(2) [OF ins] pk True s' show ?thesis
      by (simp add: keyed_def)
  qed
qed

lemma keyed_update:
  assumes "sql_update_add E s t' c d conds = Inr s'" and "keyed s t ks"
    and "t = t' \<longrightarrow> c \<notin> set ks"
  shows "keyed s' t ks"
proof -
  from assms(1) obtain tb where tb: "s t' = Some tb"
    and s': "s' = s(t' \<mapsto> tb\<lparr>rows := map (\<lambda>r. if matches E tb conds r
                                                  then add_to_cell E c d r else r) (rows tb)\<rparr>)"
    by (rule sql_update_add_Inr)
  show ?thesis
  proof (cases "t = t'")
    case False
    with assms(2) s' show ?thesis by (simp add: keyed_def)
  next
    case True
    with assms(3) have c: "c \<notin> set ks" by simp
    have key: "cell (add_to_cell E c d r) k = cell r k" if "k \<in> set ks" for k r
    proof -
      from that c have "k \<noteq> c" by blast
      then show ?thesis by (rule cell_add_to_cell)
    qed
    have "(\<lambda>r. map (cell r) ks) \<circ>
            (\<lambda>r. if matches E tb conds r then add_to_cell E c d r else r) =
          (\<lambda>r. map (cell r) ks)"
      by (rule ext) (simp add: key)
    with assms(2) tb True s' show ?thesis
      by (simp add: keyed_def)
  qed
qed

lemma keyed_create_table:
  "keyed s t ks \<Longrightarrow> (t' = t \<longrightarrow> k = Composite ks) \<Longrightarrow> keyed (create_table (t', cs, k) s) t ks"
  by (auto simp add: keyed_def create_table_def split: option.splits)

lemma keyed_fold_create_table:
  "keyed s t ks \<Longrightarrow> \<forall>(t', cs, k) \<in> set sch. t' = t \<longrightarrow> k = Composite ks \<Longrightarrow>
   keyed (fold create_table sch s) t ks"
proof (induction sch arbitrary: s)
  case Nil
  then show ?case by simp
next
  case (Cons d sch)
  obtain t' cs k where d: "d = (t', cs, k)" by (cases d)
  with Cons.prems have "keyed (create_table d s) t ks"
    by (simp add: keyed_create_table)
  with Cons show ?case by simp
qed

lemma keyed_add_item_id: "t \<noteq> ''order'' \<Longrightarrow> keyed s t ks \<Longrightarrow> keyed (add_item_id s) t ks"
  by (auto simp add: keyed_def add_item_id_def split: option.splits)

lemma keyed_executemany:
  "executemany E s t' cols data = Inr s' \<Longrightarrow> keyed s t ks \<Longrightarrow> keyed s' t ks"
proof (induction data arbitrary: s)
  case Nil
  then show ?case by simp
next
  case (Cons vs data)
  then show ?case
    by (auto split: sum.splits dest: keyed_insert)
qed

lemma keyed_seed: "seed E t' cols data s = Inr s' \<Longrightarrow> keyed s t ks \<Longrightarrow> keyed s' t ks"
  by (auto simp add: seed_def split: sum.splits bool.splits dest: keyed_executemany)

lemma keyed_seed_all: "seed_all E sds s = Inr s' \<Longrightarrow> keyed s t ks \<Longrightarrow> keyed s' t ks"
proof (induction sds arbitrary: s)
  case Nil
  then show ?case by simp
next
  case (Cons d sds)
  obtain t' cols data where d: "d = (t', cols, data)" by (cases d)
  with Cons show ?case
    by (auto split: sum.splits dest: keyed_seed)
qed

lemma keyed_init_db:
  assumes "keyed s t ks" and "\<forall>(t', cs, k) \<in> set schema. t' = t \<longrightarrow> k = Composite ks"
    and "t \<noteq> ''order''"
  shows "keyed (snd (init_db E s)) t ks"
proof -
  from assms have s1: "keyed (add_item_id (create_tables s)) t ks"
    by (simp add: create_tables_def keyed_fold_create_table keyed_add_item_id)
  show ?thesis
  proof (cases "seed_all E seeds (add_item_id (create_tables s))")
    case (Inl e)
    with s1 show ?thesis by (simp add: init_db_def)
  next
    case (Inr s2)
    with s1 keyed_seed_all [OF Inr] show ?thesis by (simp add: init_db_def)
  qed
qed

lemma keyed_insert_row: "keyed s t ks \<Longrightarrow> keyed (snd (insert_row E s t' payload)) t ks"
  by (auto simp add: insert_row_def failed_keeps_store split: sum.splits dest: keyed_insert)

lemma keyed_upsert:
  assumes "keyed s t ks" and "t = ''delivery'' \<longrightarrow> ''quantity'' \<notin> set ks"
  shows "keyed (snd (insert_or_add_delivery E s payload)) t ks"
proof -
  have "keyed s' t ks" if "upsert_write E s row a b q = Inr s'" for row a b q s'
    using that assms
    by (auto simp add: upsert_write_def split: option.splits
        dest: keyed_insert keyed_update)
  with assms(1) show ?thesis
    by (auto simp add: insert_or_add_delivery_def Let_def failed_keeps_store
        split: sum.splits)
qed

lemma reachable_keyed:
  assumes "reachable E s"
  shows "keyed s ''delivery'' [''seller_id'', ''catalog_id'']"
    and "keyed s ''order_item'' [''order_id'', ''catalog_id'']"
  using assms
proof (induction rule: reachable.induct)
  case new_file
  {
    case 1
    show ?case by (simp add: keyed_def empty_db_def)
  next
    case 2
    show ?case by (simp add: keyed_def empty_db_def)
  }
next
  case (after_init s)
  {
    case 1
    from after_init.IH(1) show ?case
      by (rule keyed_init_db) (simp_all add: schema_def)
  next
    case 2
    from after_init.IH(2) show ?case
      by (rule keyed_init_db) (simp_all add: schema_def)
  }
next
  case (after_insert s t payload)
  {
    case 1
    from after_insert.IH(1) show ?case by (rule keyed_insert_row)
  next
    case 2
    from after_insert.IH(2) show ?case by (rule keyed_insert_row)
  }
next
  case (after_upsert s payload)
  {
    case 1
    from after_upsert.IH(1) show ?case by (rule keyed_upsert) simp
  next
    case 2
    from after_upsert.IH(2) show ?case by (rule keyed_upsert) simp
  }
qed

lemma keyed_unique: "keyed s t ks \<Longrightarrow> unique_keys s t ks"
  by (simp add: keyed_def unique_keys_def split: option.splits)

lemma distinct_filter_le_one:
  "distinct (map f xs) \<Longrightarrow> length (filter (\<lambda>x. f x = k) xs) \<le> Suc 0"
proof (induction xs)
  case Nil
  then show ?case by simp
next
  case (Cons x xs)
  from Cons.prems have "f x \<notin> f ` set xs" by simp
  then have "\<forall>y \<in> set xs. f y \<noteq> f x" by (metis imageI)
  then have "f x = k \<Longrightarrow> filter (\<lambda>x. f x = k) xs = []"
    by (auto simp add: filter_empty_conv)
  with Cons show ?case by auto
qed

text \<open>
  C2. In every store that the initializer, inserts and upserts can reach from a new
  file, no two rows of \<open>delivery\<close> agree on (\<open>seller_id\<close>, \<open>catalog_id\<close>) and no two rows of
  \<open>order_item\<close> agree on (\<open>order_id\<close>, \<open>catalog_id\<close>); in particular an integer key pair has
  at most one delivery row.
\<close>

theorem one_row_per_key:
  "reachable E s \<Longrightarrow>
   unique_keys s ''delivery'' [''seller_id'', ''catalog_id''] \<and>
   unique_keys s ''order_item'' [''order_id'', ''catalog_id''] \<and>
   length (pair_rows s seller_id catalog_id) \<le> 1"
proof -
  assume r: "reachable E s"
  have "length (pair_rows s seller_id catalog_id) \<le> 1"
  proof (cases "s ''delivery''")
    case None
    then show ?thesis by (simp add: pair_rows_def)
  next
    case (Some tb)
    with reachable_keyed(1) [OF r]
    have "distinct (map (\<lambda>r. map (cell r) [''seller_id'', ''catalog_id'']) (rows tb))"
      by (simp add: keyed_def)
    from distinct_filter_le_one [OF this, of "[IntV seller_id, IntV catalog_id]"] Some
    show ?thesis by (simp add: pair_rows_def)
  qed
  with reachable_keyed [OF r] show ?thesis
    by (simp add: keyed_unique)
qed

theorem one_row_per_key_witness:
  "reachable ints_engine
     (snd (insert_or_add_delivery ints_engine (seeded_db ints_engine) (delivery_payload 1 1 50))) \<and>
   unique_keys
     (snd (insert_or_add_delivery ints_engine (seeded_db ints_engine) (delivery_payload 1 1 50)))
     ''delivery'' [''seller_id'', ''catalog_id''] \<and>
   pair_rows
     (snd (insert_or_add_delivery ints_engine (seeded_db ints_engine) (delivery_payload 1 1 50)))
     1 1 =
     [[(''seller_id'', IntV 1), (''catalog_id'', IntV 1), (''quantity'', IntV 150)]]"
proof -
  have r: "reachable ints_engine
     (snd (insert_or_add_delivery ints_engine (seeded_db ints_engine) (delivery_payload 1 1 50)))"
    unfolding seeded_db_def by (intro reachable.intros)
  have "pair_rows
     (snd (insert_or_add_delivery ints_engine (seeded_db ints_engine) (delivery_payload 1 1 50)))
     1 1 =
     [[(''seller_id'', IntV 1), (''catalog_id'', IntV 1), (''quantity'', IntV 150)]]"
    by code_simp
  with r one_row_per_key [OF r, of 1 1] show ?thesis
    by simp
qed


section \<open>Running the initializer again\<close>

lemma nonempty_insert:
  assumes "sql_insert E s t cols vals = Inr s'"
  shows "nonempty s' t \<and> (\<forall>t'. nonempty s t' \<longrightarrow> nonempty s' t') \<and>
         (\<forall>t' c. has_column s' t' c = has_column s t' c)"
proof -
  from assms obtain tb tb' r where tb: "s t = Some tb"
    and ins: "insert_into E t tb r = Inr tb'" and s': "s' = s(t \<mapsto> tb')"
    by (rule sql_insert_Inr)
  from insert_into_shape(3) [OF ins] have "rows tb' \<noteq> []" by auto
  with s' have "nonempty s' t" and "\<forall>t'. nonempty s t' \<longrightarrow> nonempty s' t'"
    by (auto simp add: nonempty_def)
  moreover from insert_into_shape(1) [OF ins] tb s'
  have "\<forall>t' c. has_column s' t' c = has_column s t' c"
    by (simp add: has_column_def column_names_def)
  ultimately show ?thesis by simp
qed

lemma nonempty_executemany:
  "executemany E s t cols data = Inr s' \<Longrightarrow>
   (data \<noteq> [] \<longrightarrow> nonempty s' t) \<and> (\<forall>t'. nonempty s t' \<longrightarrow> nonempty s' t') \<and>
   (\<forall>t' c. has_column s' t' c = has_column s t' c)"
proof (induction data arbitrary: s)
  case Nil
  then show ?case by simp
next
  case (Cons vs data)
  from Cons.prems obtain s1 where first: "sql_insert E s t cols vs = Inr s1"
    and rest: "executemany E s1 t cols data = Inr s'"
    by (auto split: sum.splits)
  from Cons.IH [OF rest] nonempty_insert [OF first]
  show ?case by simp
qed

lemma nonempty_seed:
  assumes "seed E t cols data s = Inr s'" and "data \<noteq> []"
  shows "nonempty s' t \<and> (\<forall>t'. nonempty s t' \<longrightarrow> nonempty s' t') \<and>
         (\<forall>t' c. has_column s' t' c = has_column s t' c)"
proof (cases "s t")
  case None
  with assms(1) show ?thesis by (simp add: seed_def table_empty_def)
next
  case (Some tb)
  show ?thesis
  proof (cases "rows tb = []")
    case True
    with Some assms(1) have "executemany E s t cols data = Inr s'"
      by (simp add: seed_def table_empty_def)
    from nonempty_executemany [OF this] assms(2) show ?thesis by simp
  next
    case False
    with Some assms(1) have "s' = s"
      by (simp add: seed_def table_empty_def)
    with Some False show ?thesis by (simp add: nonempty_def)
  qed
qed

lemma nonempty_seed_all:
  "seed_all E sds s = Inr s' \<Longrightarrow> \<forall>(t, cols, data) \<in> set sds. data \<noteq> [] \<Longrightarrow>
   (\<forall>(t, cols, data) \<in> set sds. nonempty s' t) \<and> (\<forall>t'. nonempty s t' \<longrightarrow> nonempty s' t') \<and>
   (\<forall>t' c. has_column s' t' c = has_column s t' c)"
proof (induction sds arbitrary: s)
  case Nil
  then show ?case by simp
next
  case (Cons d sds)
  obtain t cols data where d: "d = (t, cols, data)" by (cases d)
  with Cons.prems obtain s1 where first: "seed E t cols data s = Inr s1"
    and rest: "seed_all E sds s1 = Inr s'" and data: "data \<noteq> []"
    and others: "\<forall>(t, cols, data) \<in> set sds. data \<noteq> []"
    by (auto split: sum.splits)
  from Cons.IH [OF rest others] nonempty_seed [OF first data] d
  show ?case by simp
qed

lemma create_tables_order: "has_column (add_item_id (create_tables s)) ''order'' ''item_id''"
proof -
  have "create_tables s ''order'' \<noteq> None"
    by (simp add: create_tables_def schema_def create_table_def split: option.splits)
  then show ?thesis
    by (auto simp add: has_column_def add_item_id_def column_names_def col_def
        split: option.splits)
qed

lemma create_tables_populated: "populated s \<Longrightarrow> create_tables s = s"
  by (auto simp add: populated_def nonempty_def create_tables_def schema_def create_table_def
      split: option.splits)

lemma add_item_id_present: "has_column s ''order'' ''item_id'' \<Longrightarrow> add_item_id s = s"
  by (simp add: has_column_def add_item_id_def split: option.splits)

lemma nonempty_add_item_id: "nonempty (add_item_id s) = nonempty s"
  by (rule ext) (simp add: nonempty_def add_item_id_def split: option.splits)

lemma row_count_add_item_id: "row_count (add_item_id s) t = row_count s t"
  by (simp add: row_count_def add_item_id_def split: option.splits)

lemma cell_append_null: "cell (r @ [(c', Null)]) c = cell r c"
  by (auto simp add: cell_def map_add_def split: option.splits if_splits)

lemma add_item_id_cells:
  "s ''order'' = Some tb \<Longrightarrow>
   \<exists>tb'. add_item_id s ''order'' = Some tb' \<and> set (columns tb) \<subseteq> set (columns tb') \<and>
         (\<forall>c. rows_to_list (rows tb') c = rows_to_list (rows tb) c)"
  by (auto simp add: add_item_id_def rows_to_list_def cell_append_null comp_def)

lemma seed_all_populated:
  assumes "populated s"
  shows "seed_all E seeds s = Inr s"
proof -
  have skip: "seed E t cols data s = Inr s" if "nonempty s t" for t cols data
    using that by (simp add: seed_def table_empty_def nonempty_def split: option.splits)
  from assms show ?thesis
    by (simp add: populated_def schema_def seeds_def skip)
qed

lemma init_db_populated:
  assumes "populated s"
  shows "init_db E s = (Returned (), add_item_id s)"
proof -
  from assms have "populated (add_item_id s)"
    by (simp add: populated_def nonempty_add_item_id)
  then have "seed_all E seeds (add_item_id s) = Inr (add_item_id s)"
    by (rule seed_all_populated)
  with assms show ?thesis
    by (simp add: init_db_def create_tables_populated)
qed

lemma init_db_seeds:
  assumes "init_db E s = (Returned (), s1)"
  shows "populated s1" and "has_column s1 ''order'' ''item_id''"
proof -
  from assms have run: "seed_all E seeds (add_item_id (create_tables s)) = Inr s1"
    by (simp add: init_db_def Let_def split: sum.splits)
  have data: "\<forall>(t, cols, data) \<in> set seeds. data \<noteq> []"
    by (simp add: seeds_def)
  from nonempty_seed_all [OF run data] have "\<forall>(t, cols, data) \<in> set seeds. nonempty s1 t"
    by blast
  then show "populated s1"
    by (simp add: populated_def seeds_def schema_def)
  from nonempty_seed_all [OF run data] create_tables_order [of s]
  show "has_column s1 ''order'' ''item_id''"
    by simp
qed

text \<open>
  C3. The initializer is idempotent. A store that a run of \<open>init_db\<close> has left is left
  unchanged by the next run, so no row count changes. More generally, on every store in
  which each of the six tables holds a row, a run seeds nothing: it returns the store
  with at most the \<open>item_id\<close> column added, and the row count of every table is the same.
  The column is added only when it is missing, and adding it keeps every table, every
  column and every value of every row.
\<close>

theorem init_db_idempotent:
  "(init_db E s = (Returned (), s1) \<longrightarrow> init_db E s1 = (Returned (), s1)) \<and>
   (populated s \<longrightarrow>
      init_db E s = (Returned (), add_item_id s) \<and>
      (\<forall>t. row_count (add_item_id s) t = row_count s t)) \<and>
   (has_column s ''order'' ''item_id'' \<longrightarrow> add_item_id s = s) \<and>
   (\<forall>t. t \<noteq> ''order'' \<longrightarrow> add_item_id s t = s t) \<and>
   (\<forall>tb. s ''order'' = Some tb \<longrightarrow>
      (\<exists>tb'. add_item_id s ''order'' = Some tb' \<and> set (columns tb) \<subseteq> set (columns tb') \<and>
         (\<forall>c. rows_to_list (rows tb') c = rows_to_list (rows tb) c)))"
proof (intro conjI impI allI)
  assume first: "init_db E s = (Returned (), s1)"
  from init_db_populated [OF init_db_seeds(1) [OF first]]
    add_item_id_present [OF init_db_seeds(2) [OF first]]
  show "init_db E s1 = (Returned (), s1)"
    by simp
next
  assume "populated s"
  then show "init_db E s = (Returned (), add_item_id s)"
    by (rule init_db_populated)
next
  fix t
  show "row_count (add_item_id s) t = row_count s t"
    by (rule row_count_add_item_id)
next
  assume "has_column s ''order'' ''item_id''"
  then show "add_item_id s = s"
    by (rule add_item_id_present)
next
  fix t :: string
  assume "t \<noteq> ''order''"
  then show "add_item_id s t = s t"
    by (simp add: add_item_id_def split: option.splits)
next
  fix tb
  assume "s ''order'' = Some tb"
  then show "\<exists>tb'. add_item_id s ''order'' = Some tb' \<and> set (columns tb) \<subseteq> set (columns tb') \<and>
         (\<forall>c. rows_to_list (rows tb') c = rows_to_list (rows tb) c)"
    by (rule add_item_id_cells)
qed

theorem init_db_idempotent_witness:
  "init_db ints_engine empty_db = (Returned (), seeded_db ints_engine) \<and>
   init_db ints_engine (seeded_db ints_engine) = (Returned (), seeded_db ints_engine) \<and>
   populated (seeded_db ints_engine) \<and>
   has_column (seeded_db ints_engine) ''order'' ''item_id'' \<and>
   row_count (snd (init_db ints_engine (seeded_db ints_engine))) ''customer'' = Some 3"
proof -
  have first: "init_db ints_engine empty_db = (Returned (), seeded_db ints_engine)"
    by (rule prod_eqI) (simp_all add: init_db_new_file seeded_db_def)
  from init_db_idempotent [of ints_engine empty_db "seeded_db ints_engine"] first
  have again: "init_db ints_engine (seeded_db ints_engine) = (Returned (), seeded_db ints_engine)"
    by simp
  from init_db_seeds [OF first] first again show ?thesis
    by (simp add: row_count_def seeded_customer)
qed


section \<open>Accumulating a delivery\<close>

lemma declared_delivery:
  assumes "declared s ''delivery''"
  obtains tb where "s ''delivery'' = Some tb"
    and "columns tb = [col ''seller_id'' AffInteger True, col ''catalog_id'' AffInteger True,
                       col ''quantity'' AffInteger True]"
    and "pk tb = Composite [''seller_id'', ''catalog_id'']"
  using assms by (auto simp add: declared_def schema_def split: option.splits)

lemma declared_rows:
  "s ''delivery'' = Some tb \<Longrightarrow> declared s ''delivery'' \<Longrightarrow>
   declared (s(''delivery'' \<mapsto> tb\<lparr>rows := rs\<rparr>)) ''delivery''"
  by (simp add: declared_def schema_def)

lemma matches_pair:
  assumes "columns tb = [col ''seller_id'' AffInteger True, col ''catalog_id'' AffInteger True,
                         col ''quantity'' AffInteger True]"
  shows "matches E tb [(''seller_id'', PInt a), (''catalog_id'', PInt b)] =
           (\<lambda>r. cell r ''seller_id'' = IntV a \<and> cell r ''catalog_id'' = IntV b)"
  using assms by (auto simp add: matches_def affinity_of_def col_def)

lemma filter_update:
  assumes "\<And>x. P x \<Longrightarrow> P (f x)"
  shows "filter P (map (\<lambda>x. if P x then f x else x) xs) = map f (filter P xs)"
  using assms by (induction xs) auto

lemma upsert_insert_path:
  assumes "declared s ''delivery''" and "pair_rows s a b = []"
    and "in_int64 a" and "in_int64 b" and "in_int64 q"
  shows "\<exists>s'. insert_or_add_delivery E s (delivery_payload a b q) =
                (Returned (True, ''inserted''), s') \<and>
              declared s' ''delivery'' \<and>
              pair_rows s' a b =
                [[(''seller_id'', IntV a), (''catalog_id'', IntV b), (''quantity'', IntV q)]]"
proof -
  from assms(1) obtain tb where tb: "s ''delivery'' = Some tb"
    and cols: "columns tb = [col ''seller_id'' AffInteger True, col ''catalog_id'' AffInteger True,
                             col ''quantity'' AffInteger True]"
    and pk: "pk tb = Composite [''seller_id'', ''catalog_id'']"
    by (rule declared_delivery)
  let ?P = "\<lambda>r. cell r ''seller_id'' = IntV a \<and> cell r ''catalog_id'' = IntV b"
  let ?row = "[(''seller_id'', IntV a), (''catalog_id'', IntV b), (''quantity'', IntV q)]"
  from assms(2) tb have none: "filter ?P (rows tb) = []"
    by (simp add: pair_rows_def)
  have lookup: "upsert_lookup E s (PInt a) (PInt b) = Inr None"
    using tb cols assms(3,4) none
    by (simp add: upsert_lookup_def sql_select_def column_names_def col_def bind_params_def
        matches_pair fetchone_def)
  have row: "build_row E (columns tb)
               (zip [''seller_id'', ''catalog_id'', ''quantity''] [PInt a, PInt b, PInt q]) = ?row"
    by (simp add: cols build_row_def col_def)
  from none have fresh: "\<not> list_ex (same_key [''seller_id'', ''catalog_id''] ?row) (rows tb)"
    by (auto simp add: list_ex_iff same_key_def cell_def filter_empty_conv)
  have "insert_into E ''delivery'' tb ?row = Inr (tb\<lparr>rows := rows tb @ [?row]\<rparr>)"
    using fresh by (simp add: insert_into_def pk cols null_violation_def col_def cell_def)
  then have written: "upsert_write E s None (PInt a) (PInt b) (PInt q) =
                      Inr (s(''delivery'' \<mapsto> tb\<lparr>rows := rows tb @ [?row]\<rparr>))"
    using tb assms(3,4,5) row
    by (simp add: upsert_write_def sql_insert_def column_names_def cols col_def bind_params_def)
  have "insert_or_add_delivery E s (delivery_payload a b q) =
          (Returned (True, ''inserted''), s(''delivery'' \<mapsto> tb\<lparr>rows := rows tb @ [?row]\<rparr>))"
    using lookup written
    by (simp add: insert_or_add_delivery_def delivery_payload_def required_def field_def)
  moreover have "pair_rows (s(''delivery'' \<mapsto> tb\<lparr>rows := rows tb @ [?row]\<rparr>)) a b = [?row]"
    using none by (simp add: pair_rows_def cell_def)
  ultimately show ?thesis
    using declared_rows [OF tb assms(1)] by blast
qed

lemma upsert_update_path:
  assumes "declared s ''delivery''"
    and "pair_rows s a b =
           [[(''seller_id'', IntV a), (''catalog_id'', IntV b), (''quantity'', IntV acc)]]"
    and "in_int64 a" and "in_int64 b" and "in_int64 q" and "in_int64 (acc + q)"
  shows "\<exists>s'. insert_or_add_delivery E s (delivery_payload a b q) =
                (Returned (True, ''inserted''), s') \<and>
              declared s' ''delivery'' \<and>
              pair_rows s' a b =
                [[(''seller_id'', IntV a), (''catalog_id'', IntV b),
                  (''quantity'', IntV (acc + q))]]"
proof -
  from assms(1) obtain tb where tb: "s ''delivery'' = Some tb"
    and cols: "columns tb = [col ''seller_id'' AffInteger True, col ''catalog_id'' AffInteger True,
                             col ''quantity'' AffInteger True]"
    and pk: "pk tb = Composite [''seller_id'', ''catalog_id'']"
    by (rule declared_delivery)
  let ?P = "\<lambda>r. cell r ''seller_id'' = IntV a \<and> cell r ''catalog_id'' = IntV b"
  let ?old = "[(''seller_id'', IntV a), (''catalog_id'', IntV b), (''quantity'', IntV acc)]"
  let ?new = "[(''seller_id'', IntV a), (''catalog_id'', IntV b), (''quantity'', IntV (acc + q))]"
  let ?add = "add_to_cell E ''quantity'' (PInt q)"
  let ?rs = "map (\<lambda>r. if ?P r then ?add r else r) (rows tb)"
  from assms(2) tb have one: "filter ?P (rows tb) = [?old]"
    by (simp add: pair_rows_def)
  have lookup: "upsert_lookup E s (PInt a) (PInt b) = Inr (Some [(''quantity'', IntV acc)])"
    using tb cols assms(3,4) one
    by (simp add: upsert_lookup_def sql_select_def column_names_def col_def bind_params_def
        matches_pair fetchone_def project_def cell_def)
  have add: "?add ?old = ?new"
    using assms(6) by (simp add: add_to_cell_def)
  have written: "upsert_write E s (Some [(''quantity'', IntV acc)]) (PInt a) (PInt b) (PInt q) =
                 Inr (s(''delivery'' \<mapsto> tb\<lparr>rows := ?rs\<rparr>))"
    using tb assms(3,4,5) one
    by (simp add: upsert_write_def sql_update_add_def column_names_def cols col_def
        bind_params_def matches_pair add List.map_filter_simps null_violation_def cell_def)
  have "insert_or_add_delivery E s (delivery_payload a b q) =
          (Returned (True, ''inserted''), s(''delivery'' \<mapsto> tb\<lparr>rows := ?rs\<rparr>))"
    using lookup written
    by (simp add: insert_or_add_delivery_def delivery_payload_def required_def field_def)
  moreover have "filter ?P ?rs = map ?add (filter ?P (rows tb))"
    by (rule filter_update) (simp add: cell_add_to_cell)
  then have "pair_rows (s(''delivery'' \<mapsto> tb\<lparr>rows := ?rs\<rparr>)) a b = [?new]"
    using one add by (simp add: pair_rows_def)
  ultimately show ?thesis
    using declared_rows [OF tb assms(1)] by blast
qed

lemma upsert_all_accumulates:
  assumes "in_int64 a" and "in_int64 b"
  shows "declared s ''delivery'' \<Longrightarrow>
    pair_rows s a b =
      [[(''seller_id'', IntV a), (''catalog_id'', IntV b), (''quantity'', IntV acc)]] \<Longrightarrow>
    list_all in_int64 qs \<Longrightarrow> list_all in_int64 (running_totals acc qs) \<Longrightarrow>
    \<exists>s'. upsert_all E s (map (delivery_payload a b) qs) =
            (replicate (length qs) (Returned (True, ''inserted'')), s') \<and>
          pair_rows s' a b =
            [[(''seller_id'', IntV a), (''catalog_id'', IntV b),
              (''quantity'', IntV (acc + sum_list qs))]]"
proof (induction qs arbitrary: s acc)
  case Nil
  then show ?case by simp
next
  case (Cons q qs)
  from Cons.prems have q: "in_int64 q" and sum: "in_int64 (acc + q)"
    and qs: "list_all in_int64 qs" and totals: "list_all in_int64 (running_totals (acc + q) qs)"
    by simp_all
  from upsert_update_path [OF Cons.prems(1,2) assms q sum]
  obtain s1 where step: "insert_or_add_delivery E s (delivery_payload a b q) =
                           (Returned (True, ''inserted''), s1)"
    and d1: "declared s1 ''delivery''"
    and rows1: "pair_rows s1 a b =
                  [[(''seller_id'', IntV a), (''catalog_id'', IntV b),
                    (''quantity'', IntV (acc + q))]]"
    by blast
  from Cons.IH [OF d1 rows1 qs totals] obtain s' where
    rest: "upsert_all E s1 (map (delivery_payload a b) qs) =
             (replicate (length qs) (Returned (True, ''inserted'')), s')"
    and rows': "pair_rows s' a b =
                  [[(''seller_id'', IntV a), (''catalog_id'', IntV b),
                    (''quantity'', IntV (acc + q + sum_list qs))]]"
    by blast
  from step rest rows' show ?case
    by (simp add: add.assoc)
qed

text \<open>
  C1, as amended. On a store whose \<open>delivery\<close> table is the one \<open>init_db\<close> declares and
  holds no row for the pair (\<open>seller_id\<close>, \<open>catalog_id\<close>), take any non-empty sequence of
  upserts for that pair, with the ids and the quantities integers of the signed 64-bit
  range and with every running acc of the quantities in that range as well. Then every
  call returns success, and afterwards the pair has exactly one row, whose quantity is
  the sum of all the quantities submitted. Quantities may be negative; there is no floor.
\<close>

theorem upsert_accumulates:
  assumes "declared s ''delivery''" and "pair_rows s seller_id catalog_id = []"
    and "in_int64 seller_id" and "in_int64 catalog_id"
    and "qs \<noteq> []" and "list_all in_int64 qs" and "list_all in_int64 (running_totals 0 qs)"
  shows "\<exists>s'. upsert_all E s (map (delivery_payload seller_id catalog_id) qs) =
                 (replicate (length qs) (Returned (True, ''inserted'')), s') \<and>
               pair_rows s' seller_id catalog_id =
                 [[(''seller_id'', IntV seller_id), (''catalog_id'', IntV catalog_id),
                   (''quantity'', IntV (sum_list qs))]]"
proof -
  from assms(5) obtain q rest where qs: "qs = q # rest"
    by (cases qs) simp_all
  with assms(6,7) have q: "in_int64 q" and rest: "list_all in_int64 rest"
    and totals: "list_all in_int64 (running_totals q rest)"
    by simp_all
  from upsert_insert_path [OF assms(1,2,3,4) q]
  obtain s1 where step: "insert_or_add_delivery E s (delivery_payload seller_id catalog_id q) =
                           (Returned (True, ''inserted''), s1)"
    and d1: "declared s1 ''delivery''"
    and rows1: "pair_rows s1 seller_id catalog_id =
                  [[(''seller_id'', IntV seller_id), (''catalog_id'', IntV catalog_id),
                    (''quantity'', IntV q)]]"
    by blast
  from upsert_all_accumulates [OF assms(3,4) d1 rows1 rest totals]
  obtain s' where
    "upsert_all E s1 (map (delivery_payload seller_id catalog_id) rest) =
       (replicate (length rest) (Returned (True, ''inserted'')), s')"
    and "pair_rows s' seller_id catalog_id =
           [[(''seller_id'', IntV seller_id), (''catalog_id'', IntV catalog_id),
             (''quantity'', IntV (q + sum_list rest))]]"
    by blast
  with step qs show ?thesis
    by simp
qed

theorem upsert_accumulates_witness:
  "declared (create_tables empty_db :: int db) ''delivery'' \<and>
   pair_rows (create_tables empty_db :: int db) 1 1 = [] \<and>
   in_int64 1 \<and> [100, 50, - 200] \<noteq> [] \<and> list_all in_int64 [100, 50, - 200] \<and>
   list_all in_int64 (running_totals 0 [100, 50, - 200]) \<and>
   (\<exists>s'. upsert_all ints_engine (create_tables empty_db)
            (map (delivery_payload 1 1) [100, 50, - 200]) =
            ([Returned (True, ''inserted''), Returned (True, ''inserted''),
              Returned (True, ''inserted'')], s') \<and>
          pair_rows s' 1 1 =
            [[(''seller_id'', IntV 1), (''catalog_id'', IntV 1), (''quantity'', IntV (- 50))]])"
proof -
  have d: "declared (create_tables empty_db :: int db) ''delivery''"
    by (simp add: declared_def create_tables_def create_table_def schema_def empty_db_def)
  have none: "pair_rows (create_tables empty_db :: int db) 1 1 = []"
    by (simp add: pair_rows_def create_tables_def create_table_def schema_def empty_db_def)
  have range: "in_int64 1" "list_all in_int64 [100, 50, - 200]"
    "list_all in_int64 (running_totals 0 [100, 50, - 200])"
    by (simp_all add: in_int64_def)
  from upsert_accumulates [OF d none range(1) range(1) _ range(2,3), of ints_engine] d none range
  show ?thesis
    by simp
qed


text \<open>
  The claim C1 as stated, for every sequence, fails: two successful upserts of
  9223372036854775807 for the pair (1, 1) on an empty delivery table leave one row whose
  quantity is the REAL 18446744073709551616, not the sum 18446744073709551614.
\<close>

theorem upsert_accumulates_counterexample:
  "fst (upsert_all ints_engine (create_tables empty_db)
          (map (delivery_payload 1 1) [9223372036854775807, 9223372036854775807])) =
     [Returned (True, ''inserted''), Returned (True, ''inserted'')] \<and>
   pair_rows (snd (upsert_all ints_engine (create_tables empty_db)
          (map (delivery_payload 1 1) [9223372036854775807, 9223372036854775807]))) 1 1 =
     [[(''seller_id'', IntV 1), (''catalog_id'', IntV 1),
       (''quantity'', RealV 18446744073709551616)]] \<and>
   pair_rows (snd (upsert_all ints_engine (create_tables empty_db)
          (map (delivery_payload 1 1) [9223372036854775807, 9223372036854775807]))) 1 1 \<noteq>
     [[(''seller_id'', IntV 1), (''catalog_id'', IntV 1),
       (''quantity'', IntV (sum_list [9223372036854775807, 9223372036854775807]))]]"
  by code_simp


end
